theory Spec2Isabelle
  imports Complex_Main
begin

section \<open>Python values and exceptions\<close>

text \<open>
  The exceptions the plugin raises itself (\<open>ValueError\<close>, \<open>RuntimeError\<close>,
  \<open>TypeError\<close>), the \<open>IndexError\<close> of a subscript out of range, and the exceptions the
  wrapped library may raise. All of them are subclasses of Python's \<open>Exception\<close>:
  \<open>KeyboardInterrupt\<close>, \<open>SystemExit\<close> and \<open>GeneratorExit\<close> are not modelled.
\<close>

datatype py_exc =
    ValueError string
  | RuntimeError string
  | TypeError string
  | IndexError string
  | FileNotFoundError string
  | OSError string
  | OtherException string

fun is_ValueError :: "py_exc \<Rightarrow> bool" where
  "is_ValueError (ValueError msg) = True"
| "is_ValueError e = False"

text \<open>
  A number stored in an options dict: a Python \<open>int\<close> (unbounded) or a finite \<open>float\<close>,
  the float given by the real number it denotes.
\<close>

datatype num_val = NInt int | NFloat real

fun num_real :: "num_val \<Rightarrow> real" where
  "num_real (NInt i) = of_int i"
| "num_real (NFloat x) = x"

text \<open>
  The two floating-point operations of \<open>get_mnt\<close> that round: the conversion of an
  \<open>int\<close> to a \<open>float\<close> and the product of two floats. They are parameters of the
  model. Comparison of an \<open>int\<close> with a \<open>float\<close> and truncation of a float are exact in
  Python.
\<close>

record float_ops =
  float_of_int :: "int \<Rightarrow> real"
  float_mul :: "real \<Rightarrow> real \<Rightarrow> real"

definition exact_float_ops :: float_ops where
  "exact_float_ops = \<lparr>float_of_int = of_int, float_mul = (*)\<rparr>"

text \<open>\<open>int(x)\<close> of a float truncates towards zero; of an int it is the int.\<close>

definition trunc :: "real \<Rightarrow> int" where
  "trunc x = (if 0 \<le> x then \<lfloor>x\<rfloor> else \<lceil>x\<rceil>)"

fun py_int :: "num_val \<Rightarrow> int" where
  "py_int (NInt i) = i"
| "py_int (NFloat x) = trunc x"

fun py_float :: "float_ops \<Rightarrow> num_val \<Rightarrow> real" where
  "py_float fl (NInt i) = float_of_int fl i"
| "py_float fl (NFloat x) = x"

text \<open>
  The builtins \<open>max(a, b)\<close> and \<open>min(a, b)\<close> keep the first argument unless the second
  is strictly greater (smaller); the value returned keeps its own type.
\<close>

definition py_max :: "num_val \<Rightarrow> num_val \<Rightarrow> num_val" where
  "py_max a b = (if num_real b > num_real a then b else a)"

definition py_min :: "num_val \<Rightarrow> num_val \<Rightarrow> num_val" where
  "py_min a b = (if num_real b < num_real a then b else a)"

text \<open>\<open>options.get(key, default)\<close>.\<close>

definition dict_get :: "(string \<rightharpoonup> 'v) \<Rightarrow> string \<Rightarrow> 'v \<Rightarrow> 'v" where
  "dict_get d k dflt = (case d k of None \<Rightarrow> dflt | Some v \<Rightarrow> v)"

section \<open>\<open>get_mnt\<close>\<close>

definition opt_min_max_new_tokens :: "(string \<rightharpoonup> num_val) \<Rightarrow> int" where
  "opt_min_max_new_tokens options = py_int (dict_get options ''min_max_new_tokens'' (NInt 20))"

definition opt_max_max_new_tokens :: "(string \<rightharpoonup> num_val) \<Rightarrow> int" where
  "opt_max_max_new_tokens options = py_int (dict_get options ''max_max_new_tokens'' (NInt 512))"

definition opt_max_new_tokens_ratio :: "float_ops \<Rightarrow> (string \<rightharpoonup> num_val) \<Rightarrow> real" where
  "opt_max_new_tokens_ratio fl options =
     py_float fl (dict_get options ''max_new_tokens_ratio'' (NFloat 3.0))"

definition get_mnt :: "float_ops \<Rightarrow> int \<Rightarrow> (string \<rightharpoonup> num_val) \<Rightarrow> py_exc + int" where
  "get_mnt fl ntok options =
     (let min_max_new_tokens = opt_min_max_new_tokens options;
          max_max_new_tokens = opt_max_max_new_tokens options;
          max_new_tokens_ratio = opt_max_new_tokens_ratio fl options
      in if min_max_new_tokens > max_max_new_tokens
         then Inl (ValueError ''min_max_new_tokens must be less than max_max_new_tokens'')
         else
           (let mnt = py_min (NInt max_max_new_tokens)
                        (py_max (NInt min_max_new_tokens)
                           (NFloat (float_mul fl max_new_tokens_ratio (float_of_int fl ntok))))
            in Inr (py_int mnt)))"

section \<open>Calls into the wrapped library\<close>

text \<open>
  Values passed to \<open>_translate\<close> and \<open>_ocr\<close>: \<open>None\<close>, an int, a string, a list,
  or a Pillow image (identified by a number; its pixels are never read by the plugin).
\<close>

datatype py_val = PNone | PInt int | PStr string | PList "py_val list" | PImage nat

fun is_PStr :: "py_val \<Rightarrow> bool" where
  "is_PStr (PStr s) = True"
| "is_PStr v = False"

fun is_PList :: "py_val \<Rightarrow> bool" where
  "is_PList (PList xs) = True"
| "is_PList v = False"

fun is_PImage :: "py_val \<Rightarrow> bool" where
  "is_PImage (PImage i) = True"
| "is_PImage v = False"

text \<open>A \<open>pathlib.Path\<close>; \<open>PathDiv root x\<close> is \<open>root / x\<close>.\<close>

datatype path = Path string | PathDiv path string

text \<open>The classes of \<open>transformers\<close> that \<open>Loaders.mapping\<close> names.\<close>

datatype loader =
    AutoTokenizer
  | VisionEncoderDecoderModel
  | AutoModel
  | AutoImageProcessor
  | AutoModelForSeq2SeqLM

text \<open>
  The two ways \<open>_load\<close> calls \<open>from_pretrained\<close>: \<open>from_pretrained(mid)\<close> with a
  path, and \<open>from_pretrained(model_id, cache_dir=root)\<close>.
\<close>

datatype fp_args = FromPath path | FromId string path

text \<open>The keyword arguments \<open>_translate\<close> builds for \<open>model.generate\<close>.\<close>

record gen_kwargs =
  max_new_tokens :: int
  forced_bos_token_id :: "int option"

text \<open>
  The library behind the plugin is a parameter: one function per call the plugin makes,
  each returning the call's value or the exception it raises. Objects of the library
  (tokenizers, models, tensors) have the opaque type \<open>'o\<close>; \<open>'o option\<close> is a value that
  may be Python's \<open>None\<close>. The tokenizer's call takes the \<open>src_lang\<close> attribute set just
  before it; \<open>input_ids_shape1\<close> reads \<open>encoded['input_ids'].shape[1]\<close>;
  \<open>image_processor_call\<close> is \<open>image_processor(img, return_tensors='pt').pixel_values\<close>.
\<close>

record 'o hf_lib =
  from_pretrained :: "loader \<Rightarrow> fp_args \<Rightarrow> py_exc + 'o option"
  to_device :: "'o \<Rightarrow> string \<Rightarrow> py_exc + 'o option"
  set_src_lang :: "'o \<Rightarrow> string \<Rightarrow> py_exc + unit"
  tokenizer_call :: "'o \<Rightarrow> string \<Rightarrow> py_val \<Rightarrow> py_exc + 'o"
  input_ids_shape1 :: "'o \<Rightarrow> py_exc + int"
  is_M2M100Tokenizer :: "'o \<Rightarrow> bool"
  get_lang_id :: "'o \<Rightarrow> string \<Rightarrow> py_exc + int"
  generate :: "'o \<Rightarrow> 'o \<Rightarrow> gen_kwargs \<Rightarrow> py_exc + 'o"
  batch_decode :: "'o \<Rightarrow> 'o \<Rightarrow> py_exc + string list"
  image_processor_call :: "'o \<Rightarrow> py_val \<Rightarrow> py_exc + 'o"
  pixel_values_cuda :: "'o \<Rightarrow> py_exc + 'o"
  generate_pixels :: "'o \<Rightarrow> 'o \<Rightarrow> py_exc + 'o"

text \<open>Every call into the library (and into \<open>torch.cuda\<close>) is recorded, in order.\<close>

datatype 'o event =
    EvFromPretrained loader fp_args
  | EvTo 'o string
  | EvSetSrcLang 'o string
  | EvTokenizerCall 'o string py_val
  | EvGetLangId 'o string
  | EvGenerate 'o 'o gen_kwargs
  | EvBatchDecode 'o 'o
  | EvImageProcessorCall 'o py_val
  | EvPixelValuesCuda 'o
  | EvGeneratePixels 'o 'o
  | EvCudaEmptyCache

text \<open>
  A computation of the plugin: the value returned or the exception raised, and the calls
  made up to that point.
\<close>

type_synonym ('o, 'a) act = "(py_exc + 'a) \<times> 'o event list"

definition ret :: "'a \<Rightarrow> ('o, 'a) act" where
  "ret a = (Inr a, [])"

definition raise :: "py_exc \<Rightarrow> ('o, 'a) act" where
  "raise e = (Inl e, [])"

definition lift :: "py_exc + 'a \<Rightarrow> ('o, 'a) act" where
  "lift r = (r, [])"

definition call :: "'o event \<Rightarrow> py_exc + 'a \<Rightarrow> ('o, 'a) act" where
  "call ev r = (r, [ev])"

definition bind_act :: "('o, 'a) act \<Rightarrow> ('a \<Rightarrow> ('o, 'b) act) \<Rightarrow> ('o, 'b) act" where
  "bind_act m f =
     (case m of
        (Inl e, t) \<Rightarrow> (Inl e, t)
      | (Inr a, t) \<Rightarrow> (case f a of (r, t') \<Rightarrow> (r, t @ t')))"

section \<open>\<open>Loaders\<close>\<close>

definition accept_device :: "string list" where
  "accept_device = [''ved_model'', ''seq2seq'', ''model'']"

definition mapping :: "string \<rightharpoonup> loader" where
  "mapping =
     [''tokenizer'' \<mapsto> AutoTokenizer,
      ''ved_model'' \<mapsto> VisionEncoderDecoderModel,
      ''model'' \<mapsto> AutoModel,
      ''image_processor'' \<mapsto> AutoImageProcessor,
      ''seq2seq'' \<mapsto> AutoModelForSeq2SeqLM]"

text \<open>
  \<open>Loaders._load\<close>: \<open>except Exception\<close> catches every exception of \<open>py_exc\<close>.
  The parameter \<open>root\<close> of the source is written \<open>root_dir\<close>, \<open>root\<close> being the
  name of a function on the reals.
\<close>

definition Loaders_load_private ::
  "'o hf_lib \<Rightarrow> loader \<Rightarrow> string \<Rightarrow> path \<Rightarrow> ('o, 'o option) act" where
  "Loaders_load_private lib loader model_id root_dir =
     (let mid = PathDiv root_dir model_id in
      case from_pretrained lib loader (FromPath mid) of
        Inr res \<Rightarrow> (Inr res, [EvFromPretrained loader (FromPath mid)])
      | Inl e \<Rightarrow>
          (from_pretrained lib loader (FromId model_id root_dir),
           [EvFromPretrained loader (FromPath mid),
            EvFromPretrained loader (FromId model_id root_dir)]))"

text \<open>
  One turn of the loop of \<open>Loaders.load\<close>, for the entry \<open>r\<close> of \<open>request\<close>:
  the value it yields is the \<open>cls\<close> stored as \<open>res[r]\<close>.
\<close>

definition load_entry ::
  "'o hf_lib \<Rightarrow> string \<Rightarrow> path \<Rightarrow> string \<Rightarrow> string \<Rightarrow> ('o, 'o option) act" where
  "load_entry lib model_id root_dir dev r =
     (case mapping r of
        None \<Rightarrow> raise (ValueError (''Unknown request: '' @ r))
      | Some ld \<Rightarrow>
          bind_act (Loaders_load_private lib ld model_id root_dir) (\<lambda>loaded.
            case loaded of
              None \<Rightarrow> raise (ValueError (''Could not load model: '' @ model_id))
            | Some cls \<Rightarrow>
                if r \<in> set accept_device
                then call (EvTo cls dev) (to_device lib cls dev)
                else ret (Some cls)))"

text \<open>
  The loop of \<open>Loaders.load\<close> over \<open>request\<close>, with the dict \<open>res\<close> built so far.
\<close>

fun load_loop ::
  "'o hf_lib \<Rightarrow> string \<Rightarrow> path \<Rightarrow> string \<Rightarrow> string list \<Rightarrow> (string \<rightharpoonup> 'o option)
     \<Rightarrow> ('o, string \<rightharpoonup> 'o option) act" where
  "load_loop lib model_id root_dir dev [] res = ret res"
| "load_loop lib model_id root_dir dev (r # rs) res =
     bind_act (load_entry lib model_id root_dir dev r)
       (\<lambda>cls. load_loop lib model_id root_dir dev rs (res(r \<mapsto> cls)))"

definition Loaders_load ::
  "'o hf_lib \<Rightarrow> string \<Rightarrow> string list \<Rightarrow> path \<Rightarrow> string
     \<Rightarrow> ('o, string \<rightharpoonup> 'o option) act" where
  "Loaders_load lib model_id request root_dir dev =
     load_loop lib model_id root_dir dev request Map.empty"

section \<open>\<open>HugginfaceSeq2SeqModel\<close>\<close>

text \<open>
  The fields the plugin reads and writes: \<open>name\<close> (of the host's model class), \<open>dev\<close>
  and \<open>root\<close> (of \<open>EnvMixin\<close>), and the loaded artifacts, \<open>None\<close> when not loaded.
\<close>

record 'o HugginfaceSeq2SeqModel =
  s2s_name :: string
  s2s_dev :: string
  s2s_root :: path
  s2s_tokenizer :: "'o option"
  s2s_model :: "'o option"

definition s2s_unload ::
  "'o HugginfaceSeq2SeqModel \<Rightarrow> 'o HugginfaceSeq2SeqModel \<times> 'o event list" where
  "s2s_unload self =
     (let self1 = (if s2s_model self \<noteq> None then self\<lparr>s2s_model := None\<rparr> else self);
          self2 = (if s2s_tokenizer self1 \<noteq> None
                   then self1\<lparr>s2s_tokenizer := None\<rparr> else self1)
      in (self2, if s2s_dev self2 = ''cuda'' then [EvCudaEmptyCache] else []))"

text \<open>
  \<open>HugginfaceSeq2SeqModel._translate\<close>; \<open>options\<close> is \<open>None\<close> (the default) or a dict.
\<close>

definition s2s_translate ::
  "'o hf_lib \<Rightarrow> float_ops \<Rightarrow> 'o HugginfaceSeq2SeqModel \<Rightarrow> py_val \<Rightarrow> string \<Rightarrow> string
     \<Rightarrow> (string \<rightharpoonup> num_val) option \<Rightarrow> ('o, py_val) act" where
  "s2s_translate lib fl self tokens src_lang dst_lang options =
     (case (s2s_model self, s2s_tokenizer self) of
        (Some model, Some tokenizer) \<Rightarrow>
          (let options = (case options of None \<Rightarrow> Map.empty | Some d \<Rightarrow> d) in
           case tokens of
             PList [] \<Rightarrow> ret (PStr [])
           | PList (tokens0 # rest) \<Rightarrow>
               bind_act (call (EvSetSrcLang tokenizer src_lang)
                          (set_src_lang lib tokenizer src_lang)) (\<lambda>u.
               bind_act (call (EvTokenizerCall tokenizer src_lang tokens)
                          (tokenizer_call lib tokenizer src_lang tokens)) (\<lambda>encoded.
               bind_act (lift (input_ids_shape1 lib encoded)) (\<lambda>ntok.
               bind_act (call (EvTo encoded (s2s_dev self))
                          (to_device lib encoded (s2s_dev self))) (\<lambda>moved.
               bind_act (lift (get_mnt fl ntok options)) (\<lambda>mnt.
               bind_act
                 (if is_M2M100Tokenizer lib tokenizer
                  then bind_act (call (EvGetLangId tokenizer dst_lang)
                                  (get_lang_id lib tokenizer dst_lang)) (\<lambda>lang_id.
                       ret \<lparr>max_new_tokens = mnt, forced_bos_token_id = Some lang_id\<rparr>)
                  else ret \<lparr>max_new_tokens = mnt, forced_bos_token_id = None\<rparr>) (\<lambda>kwargs.
               bind_act (call (EvGenerate model encoded kwargs)
                          (generate lib model encoded kwargs)) (\<lambda>generated_tokens.
               bind_act (call (EvBatchDecode tokenizer generated_tokens)
                          (batch_decode lib tokenizer generated_tokens)) (\<lambda>tsl.
               bind_act
                 (if is_PStr tokens0
                  then (case tsl of
                          [] \<Rightarrow> raise (IndexError ''list index out of range'')
                        | tsl0 # others \<Rightarrow> ret (PStr tsl0))
                  else ret (PList (map PStr tsl))) (\<lambda>tsl.
               bind_act
                 (if s2s_dev self = ''cuda'' then call EvCudaEmptyCache (Inr ())
                  else ret ()) (\<lambda>u.
               ret tsl))))))))))
           | other \<Rightarrow>
               raise (TypeError
                 ''tokens must be a list of strings or a list of list of strings''))
      | unloaded \<Rightarrow> raise (RuntimeError ''Model not loaded''))"

section \<open>\<open>HugginfaceVEDModel\<close>\<close>

record 'o HugginfaceVEDModel =
  ved_name :: string
  ved_dev :: string
  ved_root :: path
  ved_tokenizer :: "'o option"
  ved_model :: "'o option"
  ved_image_processor :: "'o option"

definition ved_unload ::
  "'o HugginfaceVEDModel \<Rightarrow> 'o HugginfaceVEDModel \<times> 'o event list" where
  "ved_unload self =
     (let self1 = (if ved_model self \<noteq> None then self\<lparr>ved_model := None\<rparr> else self);
          self2 = (if ved_tokenizer self1 \<noteq> None
                   then self1\<lparr>ved_tokenizer := None\<rparr> else self1);
          self3 = (if ved_image_processor self2 \<noteq> None
                   then self2\<lparr>ved_image_processor := None\<rparr> else self2)
      in (self3, if ved_dev self3 = ''cuda'' then [EvCudaEmptyCache] else []))"

text \<open>\<open>HugginfaceVEDModel._ocr\<close>; \<open>lang\<close> and \<open>options\<close> are never read.\<close>

definition ved_ocr ::
  "'o hf_lib \<Rightarrow> 'o HugginfaceVEDModel \<Rightarrow> py_val \<Rightarrow> ('o, string) act" where
  "ved_ocr lib self img =
     (case (ved_model self, ved_tokenizer self, ved_image_processor self) of
        (Some model, Some tokenizer, Some image_processor) \<Rightarrow>
          bind_act (call (EvImageProcessorCall image_processor img)
                     (image_processor_call lib image_processor img)) (\<lambda>pixel_values.
          bind_act
            (if ved_dev self = ''cuda''
             then call (EvPixelValuesCuda pixel_values) (pixel_values_cuda lib pixel_values)
             else ret pixel_values) (\<lambda>pixel_values.
          bind_act (call (EvGeneratePixels model pixel_values)
                     (generate_pixels lib model pixel_values)) (\<lambda>generated_ids.
          bind_act (call (EvBatchDecode tokenizer generated_ids)
                     (batch_decode lib tokenizer generated_ids)) (\<lambda>decoded.
          bind_act
            (case decoded of
               [] \<Rightarrow> raise (IndexError ''list index out of range'')
             | generated_text # others \<Rightarrow> ret generated_text) (\<lambda>generated_text.
          bind_act
            (if ved_dev self = ''cuda'' then call EvCudaEmptyCache (Inr ())
             else ret ()) (\<lambda>u.
          ret generated_text))))))
      | unloaded \<Rightarrow> raise (RuntimeError ''Model not loaded''))"

section \<open>Statements about the calls made\<close>

text \<open>The device transfers \<open>obj.to(dev)\<close> among the calls made, in order.\<close>

fun transfers :: "'o event list \<Rightarrow> ('o \<times> string) list" where
  "transfers [] = []"
| "transfers (EvTo obj dev # evs) = (obj, dev) # transfers evs"
| "transfers (ev # evs) = transfers evs"

text \<open>
  The object \<open>Loaders._load\<close> yields for the request kind \<open>r\<close>, when \<open>r\<close> is a key of
  \<open>mapping\<close> and the load returns an object.
\<close>

definition loaded_obj :: "'o hf_lib \<Rightarrow> string \<Rightarrow> path \<Rightarrow> string \<Rightarrow> 'o option" where
  "loaded_obj lib model_id root_dir r =
     (case mapping r of
        None \<Rightarrow> None
      | Some ld \<Rightarrow>
          (case fst (Loaders_load_private lib ld model_id root_dir) of
             Inr (Some cls) \<Rightarrow> Some cls
           | other \<Rightarrow> None))"

text \<open>
  What \<open>res[r]\<close> holds after a turn of the loop for \<open>r\<close>: the value \<open>to\<close>
  returned for the loaded object when \<open>r\<close> accepts a device, the loaded object otherwise.
\<close>

definition entry_ok ::
  "'o hf_lib \<Rightarrow> string \<Rightarrow> path \<Rightarrow> string \<Rightarrow> string \<Rightarrow> 'o option option \<Rightarrow> bool" where
  "entry_ok lib model_id root_dir dev r x =
     (if r \<in> set accept_device
      then (\<exists>cls v. loaded_obj lib model_id root_dir r = Some cls
              \<and> to_device lib cls dev = Inr v \<and> x = Some v)
      else loaded_obj lib model_id root_dir r \<noteq> None
             \<and> x = Some (loaded_obj lib model_id root_dir r))"

text \<open>
  \<open>returns_with m P\<close>: when the computation \<open>m\<close> returns a value, the value
  satisfies \<open>P\<close>.
\<close>

definition returns_with :: "('o, 'a) act \<Rightarrow> ('a \<Rightarrow> bool) \<Rightarrow> bool" where
  "returns_with m P = (case fst m of Inl e \<Rightarrow> True | Inr a \<Rightarrow> P a)"

section \<open>The test doubles of \<open>conftest.py\<close>\<close>

text \<open>
  The objects of the test suite: \<open>A\<close>, the class instance that the mocked
  \<open>from_pretrained\<close> returns; the mocked preprocessor, tokenizer and model; the mocked
  pixel values \<open>PV\<close>; and an encoded batch that keeps the tokens it was made from.
\<close>

datatype test_obj =
    A
  | MockPreprocessor
  | MockTokenizer
  | MockModel
  | PV "int list"
  | Encoded py_val

text \<open>\<open>model_id.replace('/', '--')\<close>.\<close>

fun replace_slash :: "string \<Rightarrow> string" where
  "replace_slash [] = []"
| "replace_slash (c # cs) =
     (if c = CHR ''/'' then ''--'' @ replace_slash cs else c # replace_slash cs)"

text \<open>
  \<open>mock_loader\<close>'s \<open>Loader.from_pretrained\<close>, over the directories \<open>dirs\<close> that exist:
  a path must be a directory, an id must have its \<open>models--...\<close> directory in the cache.
\<close>

definition mock_from_pretrained ::
  "path list \<Rightarrow> loader \<Rightarrow> fp_args \<Rightarrow> py_exc + test_obj option" where
  "mock_from_pretrained dirs ld args =
     (case args of
        FromPath p \<Rightarrow>
          if p \<in> set dirs then Inr (Some A) else Inl (FileNotFoundError ''Not in dir'')
      | FromId model_id cache_dir \<Rightarrow>
          if PathDiv cache_dir (''models--'' @ replace_slash model_id) \<in> set dirs
          then Inr (Some A)
          else Inl (FileNotFoundError ''Not in cache''))"

text \<open>\<open>' '.join(words)\<close>.\<close>

fun join_words :: "string list \<Rightarrow> string" where
  "join_words [] = []"
| "join_words [w] = w"
| "join_words (w # ws) = w @ '' '' @ join_words ws"

fun str_of :: "py_val \<Rightarrow> string" where
  "str_of (PStr s) = s"
| "str_of v = []"

fun line_of :: "py_val \<Rightarrow> string" where
  "line_of (PList ws) = join_words (map str_of ws)"
| "line_of v = []"

text \<open>
  \<open>batch_decode\<close>: the OCR mock maps each pixel value \<open>i\<close> to the letter
  \<open>chr(i + ord('a') - 1)\<close> and returns the one string; the translation stand-in gives
  back the words it was given, one line for a list of strings and one line per row for a
  list of lists.
\<close>

definition mock_batch_decode :: "test_obj \<Rightarrow> test_obj \<Rightarrow> py_exc + string list" where
  "mock_batch_decode tok gen =
     (case gen of
        PV xs \<Rightarrow> Inr [map (\<lambda>i. char_of (i + 96)) xs]
      | Encoded (PList (PStr s # rest)) \<Rightarrow> Inr [line_of (PList (PStr s # rest))]
      | Encoded (PList rows) \<Rightarrow> Inr (map line_of rows)
      | other \<Rightarrow> Inl (TypeError ''cannot decode''))"

definition mock_input_ids_shape1 :: "test_obj \<Rightarrow> py_exc + int" where
  "mock_input_ids_shape1 enc =
     (case enc of
        Encoded (PList xs) \<Rightarrow> Inr (int (length xs))
      | other \<Rightarrow> Inl (TypeError ''no input_ids''))"

text \<open>
  The library made of these doubles: \<open>to\<close> returns \<open>None\<close> (the mocks' \<open>to\<close> is
  \<open>pass\<close>), the preprocessor returns the pixel values \<open>[1,2,3,4,5]\<close> whatever the
  image, and \<open>generate\<close> returns its input.
\<close>

definition mock_lib :: "path list \<Rightarrow> test_obj hf_lib" where
  "mock_lib dirs =
     \<lparr>from_pretrained = mock_from_pretrained dirs,
      to_device = (\<lambda>obj dev. Inr None),
      set_src_lang = (\<lambda>tok lang. Inr ()),
      tokenizer_call = (\<lambda>tok lang tokens. Inr (Encoded tokens)),
      input_ids_shape1 = mock_input_ids_shape1,
      is_M2M100Tokenizer = (\<lambda>tok. False),
      get_lang_id = (\<lambda>tok lang. Inr 0),
      generate = (\<lambda>model enc kwargs. Inr enc),
      batch_decode = mock_batch_decode,
      image_processor_call = (\<lambda>proc img. Inr (PV [1, 2, 3, 4, 5])),
      pixel_values_cuda = (\<lambda>pv. Inr pv),
      generate_pixels = (\<lambda>model pv. Inr pv)\<rparr>"

text \<open>
  The same library on a machine without CUDA: moving an object to a device other than
  the CPU raises, as \<open>torch\<close> does there.
\<close>

definition no_cuda_lib :: "path list \<Rightarrow> test_obj hf_lib" where
  "no_cuda_lib dirs =
     (mock_lib dirs)
       \<lparr>to_device := (\<lambda>obj dev.
          if dev = ''cpu'' then Inr None
          else Inl (RuntimeError ''No CUDA GPUs are available''))\<rparr>"

text \<open>A translator and an OCR model holding the mocked artifacts, on the CPU.\<close>

definition loaded_s2s :: "test_obj HugginfaceSeq2SeqModel" where
  "loaded_s2s =
     \<lparr>s2s_name = ''test_seq2seq'', s2s_dev = ''cpu'', s2s_root = Path ''.'',
      s2s_tokenizer = Some MockTokenizer, s2s_model = Some MockModel\<rparr>"

definition loaded_ved :: "test_obj HugginfaceVEDModel" where
  "loaded_ved =
     \<lparr>ved_name = ''test_ved'', ved_dev = ''cpu'', ved_root = Path ''.'',
      ved_tokenizer = Some MockTokenizer, ved_model = Some MockModel,
      ved_image_processor = Some MockPreprocessor\<rparr>"

section \<open>Properties of \<open>get_mnt\<close>\<close>

lemma trunc_of_int: "trunc (of_int i) = i"
  by (simp add: trunc_def)

lemma num_real_py_max: "num_real (py_max a b) = max (num_real a) (num_real b)"
  by (simp add: py_max_def max_def)

lemma py_int_py_min: "py_int (py_min (NInt a) v) = trunc (min (of_int a) (num_real v))"
proof (cases "num_real v < of_int a")
  case True
  then show ?thesis
    by (cases v) (simp_all add: py_min_def min_def trunc_of_int)
next
  case False
  then show ?thesis
    by (simp add: py_min_def min_def trunc_of_int)
qed

lemma trunc_mono:
  assumes "x \<le> y"
  shows "trunc x \<le> trunc y"
proof (cases "0 \<le> x")
  case True
  with assms have "0 \<le> y" by simp
  with True assms show ?thesis by (simp add: trunc_def floor_mono)
next
  case False
  show ?thesis
  proof (cases "0 \<le> y")
    case True
    from False have "\<lceil>x\<rceil> \<le> 0" by (simp add: ceiling_le_zero)
    moreover from True have "0 \<le> \<lfloor>y\<rfloor>" by simp
    ultimately have "\<lceil>x\<rceil> \<le> \<lfloor>y\<rfloor>" by (rule order_trans)
    with False True show ?thesis by (simp only: trunc_def if_True if_False)
  next
    case y: False
    with False assms show ?thesis by (simp add: trunc_def ceiling_mono)
  qed
qed

lemma trunc_min: "trunc (min a b) = min (trunc a) (trunc b)"
proof (cases "a \<le> b")
  case True
  then have "trunc a \<le> trunc b" by (rule trunc_mono)
  with True show ?thesis by (simp add: min_def)
next
  case False
  then have "b \<le> a" by simp
  then have "trunc b \<le> trunc a" by (rule trunc_mono)
  with False show ?thesis by (simp add: min_def)
qed

lemma trunc_max: "trunc (max a b) = max (trunc a) (trunc b)"
proof (cases "a \<le> b")
  case True
  then have "trunc a \<le> trunc b" by (rule trunc_mono)
  with True show ?thesis by (simp add: max_def)
next
  case False
  then have "b \<le> a" by simp
  then have "trunc b \<le> trunc a" by (rule trunc_mono)
  with False show ?thesis by (simp add: max_def)
qed

lemma py_int_num_real: "py_int v = trunc (num_real v)"
  by (cases v) (simp_all add: trunc_of_int)

text \<open>
  C1. When the options' \<open>min_max_new_tokens\<close> does not exceed their
  \<open>max_max_new_tokens\<close> (defaults 20 and 512; default ratio 3.0), \<open>get_mnt\<close> returns
  the truncation towards zero of
  \<open>min(max_max_new_tokens, max(min_max_new_tokens, max_new_tokens_ratio * ntok))\<close>,
  the product being the floating-point product the code computes. The two bounds are
  the values of the dict as they are, before \<open>get_mnt\<close> converts them with \<open>int\<close>.
\<close>

theorem get_mnt_formula:
  assumes "num_real (dict_get options ''min_max_new_tokens'' (NInt 20))
             \<le> num_real (dict_get options ''max_max_new_tokens'' (NInt 512))"
  shows "get_mnt fl ntok options =
           Inr (trunc (min (num_real (dict_get options ''max_max_new_tokens'' (NInt 512)))
                           (max (num_real (dict_get options ''min_max_new_tokens'' (NInt 20)))
                                (float_mul fl (opt_max_new_tokens_ratio fl options)
                                              (float_of_int fl ntok)))))"
proof -
  let ?m = "num_real (dict_get options ''min_max_new_tokens'' (NInt 20))"
  let ?M = "num_real (dict_get options ''max_max_new_tokens'' (NInt 512))"
  have a: "opt_min_max_new_tokens options = trunc ?m"
    and b: "opt_max_max_new_tokens options = trunc ?M"
    by (simp_all only: opt_min_max_new_tokens_def opt_max_max_new_tokens_def py_int_num_real)
  from assms have "trunc ?m \<le> trunc ?M" by (rule trunc_mono)
  then have "\<not> opt_min_max_new_tokens options > opt_max_max_new_tokens options"
    by (simp only: a b not_less)
  then show ?thesis
    by (simp add: get_mnt_def Let_def py_int_py_min num_real_py_max a b trunc_min trunc_max
        trunc_of_int)
qed

theorem get_mnt_formula_witness:
  "num_real (dict_get Map.empty ''min_max_new_tokens'' (NInt 20)) = 20
   \<and> num_real (dict_get Map.empty ''max_max_new_tokens'' (NInt 512)) = 512
   \<and> opt_max_new_tokens_ratio exact_float_ops Map.empty = 3
   \<and> get_mnt exact_float_ops 10 Map.empty = Inr 30
   \<and> get_mnt exact_float_ops 2 Map.empty = Inr 20
   \<and> get_mnt exact_float_ops 1000 Map.empty = Inr 512
   \<and> get_mnt exact_float_ops 41
        [''max_new_tokens_ratio'' \<mapsto> NFloat 0.5, ''min_max_new_tokens'' \<mapsto> NInt 5] = Inr 20"
proof -
  let ?opts = "[''max_new_tokens_ratio'' \<mapsto> NFloat 0.5, ''min_max_new_tokens'' \<mapsto> NInt 5]"
  have h: "num_real (dict_get Map.empty ''min_max_new_tokens'' (NInt 20))
             \<le> num_real (dict_get Map.empty ''max_max_new_tokens'' (NInt 512))"
    by (simp add: dict_get_def)
  have h': "num_real (dict_get ?opts ''min_max_new_tokens'' (NInt 20))
             \<le> num_real (dict_get ?opts ''max_max_new_tokens'' (NInt 512))"
    by (simp add: dict_get_def)
  have r: "opt_max_new_tokens_ratio exact_float_ops Map.empty = 3"
    by (simp add: opt_max_new_tokens_ratio_def dict_get_def)
  have a: "get_mnt exact_float_ops 10 Map.empty = Inr 30"
    using get_mnt_formula [OF h, of exact_float_ops 10]
    by (simp add: opt_max_new_tokens_ratio_def dict_get_def exact_float_ops_def trunc_def)
  have b: "get_mnt exact_float_ops 2 Map.empty = Inr 20"
    using get_mnt_formula [OF h, of exact_float_ops 2]
    by (simp add: opt_max_new_tokens_ratio_def dict_get_def exact_float_ops_def trunc_def)
  have c: "get_mnt exact_float_ops 1000 Map.empty = Inr 512"
    using get_mnt_formula [OF h, of exact_float_ops 1000]
    by (simp add: opt_max_new_tokens_ratio_def dict_get_def exact_float_ops_def trunc_def)
  have d: "get_mnt exact_float_ops 41 ?opts = Inr 20"
    using get_mnt_formula [OF h', of exact_float_ops 41]
    by (simp add: opt_max_new_tokens_ratio_def dict_get_def exact_float_ops_def trunc_def)
  show ?thesis
    using r a b c d by (simp add: dict_get_def)
qed

section \<open>Sequencing of computations\<close>

lemma bind_act_ret: "bind_act (ret a) f = f a"
  by (cases "f a") (simp add: bind_act_def ret_def)

lemma bind_act_raise: "bind_act (raise e) f = raise e"
  by (simp add: bind_act_def raise_def)

lemma bind_act_Inl: "bind_act (Inl e, t) f = (Inl e, t)"
  by (simp add: bind_act_def)

lemma bind_act_Inr: "bind_act (Inr a, t) f = (fst (f a), t @ snd (f a))"
  by (cases "f a") (simp add: bind_act_def)

lemma bind_act_assoc:
  "bind_act (bind_act m f) g = bind_act m (\<lambda>x. bind_act (f x) g)"
proof (cases m)
  case (Pair r t)
  show ?thesis
  proof (cases r)
    case (Inl e)
    with Pair show ?thesis by (simp add: bind_act_Inl)
  next
    case (Inr a)
    obtain r1 t1 where fa: "f a = (r1, t1)" by (cases "f a")
    show ?thesis
    proof (cases r1)
      case (Inl e)
      with Pair Inr fa show ?thesis by (simp add: bind_act_def)
    next
      case (Inr b)
      obtain r2 t2 where gb: "g b = (r2, t2)" by (cases "g b")
      from Pair \<open>r = Inr a\<close> fa Inr gb show ?thesis by (simp add: bind_act_def)
    qed
  qed
qed

lemma bind_act_success:
  assumes "bind_act m f = (Inr b, tr)"
  obtains a t1 t2 where "m = (Inr a, t1)" and "f a = (Inr b, t2)" and "tr = t1 @ t2"
proof (cases m)
  case (Pair r t1)
  show ?thesis
  proof (cases r)
    case (Inl e)
    with Pair assms show ?thesis by (simp add: bind_act_Inl)
  next
    case (Inr a)
    obtain r2 t2 where fa: "f a = (r2, t2)" by (cases "f a")
    with Pair Inr assms have "r2 = Inr b" and "tr = t1 @ t2"
      by (simp_all add: bind_act_def)
    with Pair Inr fa that show ?thesis by simp
  qed
qed

section \<open>Properties of \<open>Loaders\<close>\<close>

text \<open>
  C2. \<open>Loaders._load\<close> first calls \<open>from_pretrained\<close> on the local path
  \<open>root / model_id\<close>. When that call returns, its value is returned unchanged and no
  other call is made; when it raises, \<open>from_pretrained(model_id, cache_dir=root)\<close> is the
  second and last call, and its outcome is the outcome of \<open>_load\<close>.
\<close>

theorem Loaders_load_private_two_tier:
  "(\<forall>res. from_pretrained lib ld (FromPath (PathDiv root_dir model_id)) = Inr res \<longrightarrow>
      Loaders_load_private lib ld model_id root_dir =
        (Inr res, [EvFromPretrained ld (FromPath (PathDiv root_dir model_id))]))
   \<and> (\<forall>e. from_pretrained lib ld (FromPath (PathDiv root_dir model_id)) = Inl e \<longrightarrow>
      Loaders_load_private lib ld model_id root_dir =
        (from_pretrained lib ld (FromId model_id root_dir),
         [EvFromPretrained ld (FromPath (PathDiv root_dir model_id)),
          EvFromPretrained ld (FromId model_id root_dir)]))"
  by (simp add: Loaders_load_private_def Let_def)

theorem Loaders_load_private_two_tier_witness:
  "Loaders_load_private (mock_lib [PathDiv (Path ''.'') ''test/id'']) AutoTokenizer
       ''test/id'' (Path ''.'') =
     (Inr (Some A),
      [EvFromPretrained AutoTokenizer (FromPath (PathDiv (Path ''.'') ''test/id''))])
   \<and> from_pretrained (mock_lib [PathDiv (Path ''.'') ''models--test--id'']) AutoTokenizer
        (FromPath (PathDiv (Path ''.'') ''test/id'')) = Inl (FileNotFoundError ''Not in dir'')
   \<and> Loaders_load_private (mock_lib [PathDiv (Path ''.'') ''models--test--id''])
        AutoTokenizer ''test/id'' (Path ''.'') =
     (Inr (Some A),
      [EvFromPretrained AutoTokenizer (FromPath (PathDiv (Path ''.'') ''test/id'')),
       EvFromPretrained AutoTokenizer (FromId ''test/id'' (Path ''.''))])"
proof -
  let ?local = "mock_lib [PathDiv (Path ''.'') ''test/id'']"
  let ?cache = "mock_lib [PathDiv (Path ''.'') ''models--test--id'']"
  have l: "from_pretrained ?local AutoTokenizer (FromPath (PathDiv (Path ''.'') ''test/id''))
             = Inr (Some A)"
    by (simp add: mock_lib_def mock_from_pretrained_def)
  have c1: "from_pretrained ?cache AutoTokenizer (FromPath (PathDiv (Path ''.'') ''test/id''))
             = Inl (FileNotFoundError ''Not in dir'')"
    by (simp add: mock_lib_def mock_from_pretrained_def)
  have c2: "from_pretrained ?cache AutoTokenizer (FromId ''test/id'' (Path ''.''))
             = Inr (Some A)"
    by (simp add: mock_lib_def mock_from_pretrained_def)
  from l c1 c2
    Loaders_load_private_two_tier [of ?local AutoTokenizer "Path ''.''" "''test/id''"]
    Loaders_load_private_two_tier [of ?cache AutoTokenizer "Path ''.''" "''test/id''"]
  show ?thesis by simp
qed


lemma load_loop_append:
  "load_loop lib model_id root_dir dev (pre @ post) acc =
     bind_act (load_loop lib model_id root_dir dev pre acc)
       (load_loop lib model_id root_dir dev post)"
  by (induction pre arbitrary: acc) (simp_all add: bind_act_ret bind_act_assoc)

lemma load_entry_unknown:
  "mapping r = None \<Longrightarrow>
     load_entry lib model_id root_dir dev r = raise (ValueError (''Unknown request: '' @ r))"
  by (simp add: load_entry_def)

lemma load_loop_unknown_raises:
  assumes "r \<in> set request" and "mapping r = None"
  shows "\<exists>e. fst (load_loop lib model_id root_dir dev request acc) = Inl e"
  using assms
proof (induction request arbitrary: acc)
  case Nil
  then show ?case by simp
next
  case (Cons x xs)
  obtain out t where le: "load_entry lib model_id root_dir dev x = (out, t)"
    by (cases "load_entry lib model_id root_dir dev x")
  show ?case
  proof (cases out)
    case (Inl e)
    with le show ?thesis by (simp add: bind_act_Inl)
  next
    case (Inr v)
    with le Cons.prems have "x \<noteq> r"
      by (auto simp: load_entry_unknown raise_def)
    with Cons.prems have "r \<in> set xs" by simp
    from Cons.IH [OF this Cons.prems(2)] le Inr show ?thesis
      by (simp add: bind_act_Inr)
  qed
qed

text \<open>
  C3, as the code has it. A request list with an entry that is no key of \<open>mapping\<close>
  always makes \<open>Loaders.load\<close> raise. When the entries before that entry load (and
  move to the device) without raising, the exception is the \<open>ValueError\<close>
  \<open>Unknown request\<close>, and the calls made are those of the earlier entries alone: nothing
  is loaded for the unknown entry or after it.
\<close>

theorem Loaders_load_unknown_request:
  "(mapping r = None \<longrightarrow> r \<in> set request \<longrightarrow>
      (\<exists>e. fst (Loaders_load lib model_id request root_dir dev) = Inl e))
   \<and> (mapping r = None \<longrightarrow>
      (\<forall>res tr. Loaders_load lib model_id pre root_dir dev = (Inr res, tr) \<longrightarrow>
         Loaders_load lib model_id (pre @ r # post) root_dir dev =
           (Inl (ValueError (''Unknown request: '' @ r)), tr)))"
proof (intro conjI impI allI)
  assume "mapping r = None" and "r \<in> set request"
  then show "\<exists>e. fst (Loaders_load lib model_id request root_dir dev) = Inl e"
    unfolding Loaders_load_def by (rule load_loop_unknown_raises [rotated])
next
  fix res tr
  assume u: "mapping r = None"
    and p: "Loaders_load lib model_id pre root_dir dev = (Inr res, tr)"
  from p have "load_loop lib model_id root_dir dev pre Map.empty = (Inr res, tr)"
    by (simp add: Loaders_load_def)
  then show "Loaders_load lib model_id (pre @ r # post) root_dir dev =
           (Inl (ValueError (''Unknown request: '' @ r)), tr)"
    by (simp add: Loaders_load_def load_loop_append bind_act_Inr load_entry_unknown [OF u]
        bind_act_Inl raise_def)
qed

lemma transfers_append: "transfers (xs @ ys) = transfers xs @ transfers ys"
  by (induction xs rule: transfers.induct) simp_all

lemma transfers_load_private:
  "transfers (snd (Loaders_load_private lib ld model_id root_dir)) = []"
  by (simp add: Loaders_load_private_def Let_def split: sum.splits)

text \<open>What a turn of the loop that returns has done.\<close>

lemma load_entry_success:
  assumes "load_entry lib model_id root_dir dev r = (Inr v, t)"
  obtains cls where "loaded_obj lib model_id root_dir r = Some cls"
    and "r \<in> set accept_device \<Longrightarrow> to_device lib cls dev = Inr v \<and> transfers t = [(cls, dev)]"
    and "r \<notin> set accept_device \<Longrightarrow> v = Some cls \<and> transfers t = []"
proof (cases "mapping r")
  case None
  with assms show ?thesis by (simp add: load_entry_def raise_def)
next
  case (Some ld)
  with assms have "bind_act (Loaders_load_private lib ld model_id root_dir) (\<lambda>loaded.
            case loaded of
              None \<Rightarrow> raise (ValueError (''Could not load model: '' @ model_id))
            | Some cls \<Rightarrow>
                if r \<in> set accept_device
                then call (EvTo cls dev) (to_device lib cls dev)
                else ret (Some cls)) = (Inr v, t)"
    by (simp only: load_entry_def option.case)
  then obtain loaded t1 t2 where l: "Loaders_load_private lib ld model_id root_dir = (Inr loaded, t1)"
    and k: "(case loaded of
              None \<Rightarrow> raise (ValueError (''Could not load model: '' @ model_id))
            | Some cls \<Rightarrow>
                if r \<in> set accept_device
                then call (EvTo cls dev) (to_device lib cls dev)
                else ret (Some cls)) = (Inr v, t2)"
    and t: "t = t1 @ t2"
    by (rule bind_act_success)
  from k obtain cls where c: "loaded = Some cls"
    by (cases loaded) (simp_all add: raise_def)
  from l have t1: "transfers t1 = []"
    using transfers_load_private [of lib ld model_id root_dir] by simp
  from l c Some have lo: "loaded_obj lib model_id root_dir r = Some cls"
    by (simp add: loaded_obj_def)
  show ?thesis
  proof (rule that [OF lo])
    assume "r \<in> set accept_device"
    with k c t t1 show "to_device lib cls dev = Inr v \<and> transfers t = [(cls, dev)]"
      by (auto simp: call_def transfers_append)
  next
    assume "r \<notin> set accept_device"
    with k c t t1 show "v = Some cls \<and> transfers t = []"
      by (auto simp: ret_def transfers_append)
  qed
qed

lemma load_loop_transfers:
  assumes "load_loop lib model_id root_dir dev request acc = (Inr res, tr)"
  shows "map (\<lambda>(obj, d). (Some obj, d)) (transfers tr) =
           map (\<lambda>r. (loaded_obj lib model_id root_dir r, dev))
             (filter (\<lambda>r. r \<in> set accept_device) request)
         \<and> (\<forall>r \<in> set request. entry_ok lib model_id root_dir dev r (res r))
         \<and> (\<forall>r. r \<notin> set request \<longrightarrow> res r = acc r)"
  using assms
proof (induction request arbitrary: acc tr)
  case Nil
  then show ?case by (simp add: ret_def)
next
  case (Cons x xs)
  from Cons.prems obtain v t1 t2
    where e: "load_entry lib model_id root_dir dev x = (Inr v, t1)"
      and l: "load_loop lib model_id root_dir dev xs (acc(x \<mapsto> v)) = (Inr res, t2)"
      and tr: "tr = t1 @ t2"
    by (auto elim: bind_act_success)
  note ih = Cons.IH [OF l]
  from e obtain cls where lo: "loaded_obj lib model_id root_dir x = Some cls"
    and dev: "x \<in> set accept_device \<Longrightarrow> to_device lib cls dev = Inr v \<and> transfers t1 = [(cls, dev)]"
    and nodev: "x \<notin> set accept_device \<Longrightarrow> v = Some cls \<and> transfers t1 = []"
    by (rule load_entry_success) blast
  have ok: "entry_ok lib model_id root_dir dev x (Some v)"
    using lo dev nodev by (auto simp: entry_ok_def)
  have x: "entry_ok lib model_id root_dir dev x (res x)"
  proof (cases "x \<in> set xs")
    case True
    with ih show ?thesis by blast
  next
    case False
    with ih have "res x = Some v" by simp
    with ok show ?thesis by simp
  qed
  have tra: "map (\<lambda>(obj, d). (Some obj, d)) (transfers tr) =
           map (\<lambda>r. (loaded_obj lib model_id root_dir r, dev))
             (filter (\<lambda>r. r \<in> set accept_device) (x # xs))"
    using ih lo dev nodev tr by (cases "x \<in> set accept_device") (simp_all add: transfers_append)
  from ih have rest: "\<forall>r. r \<notin> set (x # xs) \<longrightarrow> res r = acc r"
    by simp
  from tra x ih rest show ?case by simp
qed


text \<open>
  C7. When \<open>Loaders.load\<close> returns, the device transfers it made are, in order, those of
  the loaded objects of the request's entries in \<open>accept_device\<close>
  (\<open>ved_model\<close>, \<open>seq2seq\<close>, \<open>model\<close>), each to \<open>dev\<close>; the dict holds for such
  an entry what \<open>to\<close> returned, and for any other entry (\<open>tokenizer\<close>,
  \<open>image_processor\<close>) the loaded object itself.
\<close>

theorem Loaders_load_device_transfers:
  assumes "Loaders_load lib model_id request root_dir dev = (Inr res, tr)"
  shows "map (\<lambda>(obj, d). (Some obj, d)) (transfers tr) =
           map (\<lambda>r. (loaded_obj lib model_id root_dir r, dev))
             (filter (\<lambda>r. r \<in> set accept_device) request)
         \<and> (\<forall>r \<in> set request. r \<in> set accept_device \<longrightarrow>
               (\<exists>cls v. loaded_obj lib model_id root_dir r = Some cls
                  \<and> to_device lib cls dev = Inr v \<and> res r = Some v))
         \<and> (\<forall>r \<in> set request. r \<notin> set accept_device \<longrightarrow>
               (\<exists>cls. loaded_obj lib model_id root_dir r = Some cls
                  \<and> res r = Some (Some cls)))
         \<and> set accept_device = {''ved_model'', ''seq2seq'', ''model''}
         \<and> ''tokenizer'' \<notin> set accept_device
         \<and> ''image_processor'' \<notin> set accept_device"
proof -
  from assms have l: "load_loop lib model_id root_dir dev request Map.empty = (Inr res, tr)"
    by (simp add: Loaders_load_def)
  note inv = load_loop_transfers [OF l]
  from inv have a: "map (\<lambda>(obj, d). (Some obj, d)) (transfers tr) =
           map (\<lambda>r. (loaded_obj lib model_id root_dir r, dev))
             (filter (\<lambda>r. r \<in> set accept_device) request)"
    by blast
  from inv have ok: "\<forall>r \<in> set request. entry_ok lib model_id root_dir dev r (res r)"
    by blast
  have b: "\<forall>r \<in> set request. r \<in> set accept_device \<longrightarrow>
               (\<exists>cls v. loaded_obj lib model_id root_dir r = Some cls
                  \<and> to_device lib cls dev = Inr v \<and> res r = Some v)"
    using ok by (auto simp: entry_ok_def)
  have c: "\<forall>r \<in> set request. r \<notin> set accept_device \<longrightarrow>
               (\<exists>cls. loaded_obj lib model_id root_dir r = Some cls
                  \<and> res r = Some (Some cls))"
    using ok by (auto simp: entry_ok_def)
  have d: "set accept_device = {''ved_model'', ''seq2seq'', ''model''}"
    by (simp add: accept_device_def)
  have e: "''tokenizer'' \<notin> set accept_device" "''image_processor'' \<notin> set accept_device"
    by (simp_all add: accept_device_def)
  from a b c d e show ?thesis by blast
qed

lemmas mock_defs = mock_lib_def mock_from_pretrained_def Loaders_load_def load_entry_def
  Loaders_load_private_def mapping_def accept_device_def bind_act_def ret_def raise_def
  call_def lift_def

theorem Loaders_load_device_transfers_witness:
  "Loaders_load (mock_lib [PathDiv (Path ''.'') ''test/id'']) ''test/id''
       [''seq2seq'', ''tokenizer''] (Path ''.'') ''cpu'' =
     (Inr [''seq2seq'' \<mapsto> None, ''tokenizer'' \<mapsto> Some A],
      [EvFromPretrained AutoModelForSeq2SeqLM (FromPath (PathDiv (Path ''.'') ''test/id'')),
       EvTo A ''cpu'',
       EvFromPretrained AutoTokenizer (FromPath (PathDiv (Path ''.'') ''test/id''))])
   \<and> [(Some A, ''cpu'')] =
       map (\<lambda>r. (loaded_obj (mock_lib [PathDiv (Path ''.'') ''test/id'']) ''test/id''
                    (Path ''.'') r, ''cpu'')) [''seq2seq'']"
proof -
  let ?lib = "mock_lib [PathDiv (Path ''.'') ''test/id'']"
  have h: "Loaders_load ?lib ''test/id'' [''seq2seq'', ''tokenizer''] (Path ''.'') ''cpu'' =
     (Inr [''seq2seq'' \<mapsto> None, ''tokenizer'' \<mapsto> Some A],
      [EvFromPretrained AutoModelForSeq2SeqLM (FromPath (PathDiv (Path ''.'') ''test/id'')),
       EvTo A ''cpu'',
       EvFromPretrained AutoTokenizer (FromPath (PathDiv (Path ''.'') ''test/id''))])"
    by (simp add: mock_defs)
  from Loaders_load_device_transfers [OF h] h show ?thesis
    by (simp add: accept_device_def)
qed

text \<open>
  Two requests with the unknown entry \<open>bogus\<close> that raise no \<open>ValueError\<close>, because an
  earlier entry raises first. In \<open>['tokenizer', 'bogus']\<close> for a model that is neither in
  the store nor in the cache, the load of \<open>tokenizer\<close> raises \<open>FileNotFoundError\<close>. In
  \<open>['seq2seq', 'bogus']\<close> for a stored model and the device \<open>cuda\<close> on a machine
  without CUDA, the transfer of the loaded model raises \<open>RuntimeError\<close>.
\<close>

theorem Loaders_load_unknown_request_counterexample:
  "''bogus'' \<in> set [''tokenizer'', ''bogus'']
   \<and> ''bogus'' \<in> set [''seq2seq'', ''bogus'']
   \<and> mapping ''bogus'' = None
   \<and> Loaders_load (mock_lib []) ''test/id'' [''tokenizer'', ''bogus''] (Path ''.'') ''cpu'' =
       (Inl (FileNotFoundError ''Not in cache''),
        [EvFromPretrained AutoTokenizer (FromPath (PathDiv (Path ''.'') ''test/id'')),
         EvFromPretrained AutoTokenizer (FromId ''test/id'' (Path ''.''))])
   \<and> \<not> is_ValueError (FileNotFoundError ''Not in cache'')
   \<and> Loaders_load (no_cuda_lib [PathDiv (Path ''.'') ''test/id'']) ''test/id''
         [''seq2seq'', ''bogus''] (Path ''.'') ''cuda'' =
       (Inl (RuntimeError ''No CUDA GPUs are available''),
        [EvFromPretrained AutoModelForSeq2SeqLM (FromPath (PathDiv (Path ''.'') ''test/id'')),
         EvTo A ''cuda''])
   \<and> \<not> is_ValueError (RuntimeError ''No CUDA GPUs are available'')"
  by (simp add: mock_defs no_cuda_lib_def)

theorem Loaders_load_unknown_request_witness:
  "mapping ''bogus'' = None
   \<and> Loaders_load (mock_lib [PathDiv (Path ''.'') ''test/id'']) ''test/id'' [''tokenizer'']
       (Path ''.'') ''cpu'' =
       (Inr [''tokenizer'' \<mapsto> Some A],
        [EvFromPretrained AutoTokenizer (FromPath (PathDiv (Path ''.'') ''test/id''))])
   \<and> Loaders_load (mock_lib [PathDiv (Path ''.'') ''test/id'']) ''test/id''
       [''tokenizer'', ''bogus'', ''seq2seq''] (Path ''.'') ''cpu'' =
       (Inl (ValueError ''Unknown request: bogus''),
        [EvFromPretrained AutoTokenizer (FromPath (PathDiv (Path ''.'') ''test/id''))])"
proof -
  let ?lib = "mock_lib [PathDiv (Path ''.'') ''test/id'']"
  have u: "mapping ''bogus'' = None"
    by (simp add: mapping_def)
  have p: "Loaders_load ?lib ''test/id'' [''tokenizer''] (Path ''.'') ''cpu'' =
       (Inr [''tokenizer'' \<mapsto> Some A],
        [EvFromPretrained AutoTokenizer (FromPath (PathDiv (Path ''.'') ''test/id''))])"
    by (simp add: mock_defs)
  from Loaders_load_unknown_request
         [of "''bogus''" "[''tokenizer'', ''bogus'', ''seq2seq'']" ?lib "''test/id''" "Path ''.''"
            "''cpu''" "[''tokenizer'']" "[''seq2seq'']"] u p
  show ?thesis by simp
qed

text \<open>
  C4, at a model that cannot be loaded. With the \<open>from_pretrained\<close> of the test suite
  and a model that is neither in the store nor in the cache, \<open>Loaders.load\<close> raises the
  \<open>FileNotFoundError\<close> of the second attempt, not a \<open>ValueError\<close>.
\<close>

theorem Loaders_load_missing_model:
  "Loaders_load (mock_lib []) ''test/id'' [''seq2seq'', ''tokenizer''] (Path ''.'') ''cpu'' =
     (Inl (FileNotFoundError ''Not in cache''),
      [EvFromPretrained AutoModelForSeq2SeqLM (FromPath (PathDiv (Path ''.'') ''test/id'')),
       EvFromPretrained AutoModelForSeq2SeqLM (FromId ''test/id'' (Path ''.''))])
   \<and> \<not> is_ValueError (FileNotFoundError ''Not in cache'')"
  by (simp add: mock_defs)

section \<open>Properties of the two models\<close>

text \<open>
  C5. While the model or the tokenizer (or, for OCR, the image processor) is \<open>None\<close>,
  \<open>_translate\<close> and \<open>_ocr\<close> raise \<open>RuntimeError\<close> and make no call at all into the
  library: no tokenizer call, no \<open>generate\<close>, no decoding.
\<close>

theorem use_before_load_raises:
  "(s2s_model self = None \<or> s2s_tokenizer self = None \<longrightarrow>
      s2s_translate lib fl self tokens src_lang dst_lang options =
        (Inl (RuntimeError ''Model not loaded''), []))
   \<and> (ved_model v = None \<or> ved_tokenizer v = None \<or> ved_image_processor v = None \<longrightarrow>
      ved_ocr lib v img = (Inl (RuntimeError ''Model not loaded''), []))"
  by (auto simp: s2s_translate_def ved_ocr_def raise_def split: option.splits)

lemmas run_defs = s2s_translate_def ved_ocr_def s2s_unload_def ved_unload_def
  loaded_s2s_def loaded_ved_def mock_lib_def mock_batch_decode_def mock_input_ids_shape1_def
  bind_act_def ret_def raise_def call_def lift_def Let_def

theorem use_before_load_raises_witness:
  "s2s_model (fst (s2s_unload loaded_s2s)) = None
   \<and> s2s_translate (mock_lib []) exact_float_ops (fst (s2s_unload loaded_s2s))
        (PList [PStr ''hello'']) ''ja'' ''en'' None =
        (Inl (RuntimeError ''Model not loaded''), [])
   \<and> ved_image_processor (fst (ved_unload loaded_ved)) = None
   \<and> ved_ocr (mock_lib []) (fst (ved_unload loaded_ved)) (PImage 0) =
        (Inl (RuntimeError ''Model not loaded''), [])"
proof -
  have a: "s2s_model (fst (s2s_unload loaded_s2s)) = None"
    by (simp add: s2s_unload_def loaded_s2s_def Let_def)
  have b: "ved_image_processor (fst (ved_unload loaded_ved)) = None"
    by (simp add: ved_unload_def loaded_ved_def Let_def)
  from a b
    use_before_load_raises [of "fst (s2s_unload loaded_s2s)" "mock_lib []" exact_float_ops
      "PList [PStr ''hello'']" "''ja''" "''en''" None "fst (ved_unload loaded_ved)" "PImage 0"]
  show ?thesis by simp
qed

text \<open>
  C8. \<open>unload\<close> leaves the state with every loaded artifact set to \<open>None\<close> and with
  \<open>name\<close>, \<open>dev\<close> and \<open>root\<close> as they were; unloading again gives the same state.
\<close>

theorem unload_releases_artifacts:
  "fst (s2s_unload self) = self\<lparr>s2s_model := None, s2s_tokenizer := None\<rparr>
   \<and> s2s_model (fst (s2s_unload self)) = None
   \<and> s2s_tokenizer (fst (s2s_unload self)) = None
   \<and> s2s_name (fst (s2s_unload self)) = s2s_name self
   \<and> s2s_dev (fst (s2s_unload self)) = s2s_dev self
   \<and> s2s_root (fst (s2s_unload self)) = s2s_root self
   \<and> fst (s2s_unload (fst (s2s_unload self))) = fst (s2s_unload self)
   \<and> fst (ved_unload v) =
       v\<lparr>ved_model := None, ved_tokenizer := None, ved_image_processor := None\<rparr>
   \<and> ved_model (fst (ved_unload v)) = None
   \<and> ved_tokenizer (fst (ved_unload v)) = None
   \<and> ved_image_processor (fst (ved_unload v)) = None
   \<and> ved_name (fst (ved_unload v)) = ved_name v
   \<and> ved_dev (fst (ved_unload v)) = ved_dev v
   \<and> ved_root (fst (ved_unload v)) = ved_root v
   \<and> fst (ved_unload (fst (ved_unload v))) = fst (ved_unload v)"
proof -
  have s: "fst (s2s_unload x) = x\<lparr>s2s_model := None, s2s_tokenizer := None\<rparr>"
    for x :: "'a HugginfaceSeq2SeqModel"
    by (cases x) (simp add: s2s_unload_def Let_def)
  have w: "fst (ved_unload y) =
       y\<lparr>ved_model := None, ved_tokenizer := None, ved_image_processor := None\<rparr>"
    for y :: "'b HugginfaceVEDModel"
    by (cases y) (simp add: ved_unload_def Let_def)
  show ?thesis
    by (simp add: s w)
qed

text \<open>
  C9. On a loaded model, \<open>_translate\<close> of the empty list returns the empty string, which
  is not a list, and makes no call into the library.
\<close>

theorem translate_empty_list:
  assumes "s2s_model self \<noteq> None" and "s2s_tokenizer self \<noteq> None"
  shows "s2s_translate lib fl self (PList []) src_lang dst_lang options = (Inr (PStr ''''), [])
         \<and> \<not> is_PList (PStr '''')"
  using assms by (auto simp: s2s_translate_def ret_def Let_def)

theorem translate_empty_list_witness:
  "s2s_model loaded_s2s \<noteq> None \<and> s2s_tokenizer loaded_s2s \<noteq> None
   \<and> s2s_translate (mock_lib []) exact_float_ops loaded_s2s (PList []) ''ja'' ''en'' None =
       (Inr (PStr ''''), [])"
proof -
  have a: "s2s_model loaded_s2s \<noteq> None" and b: "s2s_tokenizer loaded_s2s \<noteq> None"
    by (simp_all add: loaded_s2s_def)
  from translate_empty_list [OF a b, of "mock_lib []" exact_float_ops "''ja''" "''en''" None] a b
  show ?thesis by simp
qed

text \<open>
  On a loaded model, \<open>_translate\<close> raises \<open>TypeError\<close> for tokens that are not a list.
\<close>

lemma translate_non_list:
  assumes "s2s_model self \<noteq> None" and "s2s_tokenizer self \<noteq> None" and "\<not> is_PList tokens"
  shows "s2s_translate lib fl self tokens src_lang dst_lang options =
           (Inl (TypeError ''tokens must be a list of strings or a list of list of strings''),
            [])"
  using assms by (cases tokens) (auto simp: s2s_translate_def raise_def Let_def)

text \<open>The letters that the mocked \<open>batch_decode\<close> makes of the pixel values 1 to 5.\<close>

lemma letters:
  "char_of (97::int) = CHR ''a''" "char_of (98::int) = CHR ''b''" "char_of (99::int) = CHR ''c''"
  "char_of (100::int) = CHR ''d''" "char_of (101::int) = CHR ''e''"
  by (simp_all add: char_of_def bit_numeral_simps)

text \<open>
  C6, at an image that is no Pillow image. \<open>_ocr\<close> never looks at the type of \<open>img\<close>:
  with the preprocessor of the test suite, which accepts any value, the string
  \<open>'not an image'\<close> is processed like an image and \<open>_ocr\<close> returns a text.
\<close>

theorem ocr_non_image_no_TypeError:
  "\<not> is_PImage (PStr ''not an image'')
   \<and> ved_ocr (mock_lib []) loaded_ved (PStr ''not an image'') =
       (Inr ''abcde'',
        [EvImageProcessorCall MockPreprocessor (PStr ''not an image''),
         EvGeneratePixels MockModel (PV [1, 2, 3, 4, 5]),
         EvBatchDecode MockTokenizer (PV [1, 2, 3, 4, 5])])"
  by (simp add: run_defs letters)


section \<open>What a returning computation has established\<close>

lemma returns_with_bind:
  "returns_with m (\<lambda>a. returns_with (f a) P) \<Longrightarrow> returns_with (bind_act m f) P"
  by (cases m; cases "fst m") (auto simp: returns_with_def bind_act_def split: prod.splits)

lemma returns_with_call: "(\<And>a. r = Inr a \<Longrightarrow> P a) \<Longrightarrow> returns_with (call ev r) P"
  by (cases r) (simp_all add: returns_with_def call_def)

lemma returns_with_lift: "(\<And>a. r = Inr a \<Longrightarrow> P a) \<Longrightarrow> returns_with (lift r) P"
  by (cases r) (simp_all add: returns_with_def lift_def)

lemma returns_with_ret: "P a \<Longrightarrow> returns_with (ret a) P"
  by (simp add: returns_with_def ret_def)

lemma returns_with_raise: "returns_with (raise e) P"
  by (simp add: returns_with_def raise_def)

lemma returns_with_if:
  "(c \<Longrightarrow> returns_with a P) \<Longrightarrow> (\<not> c \<Longrightarrow> returns_with b P) \<Longrightarrow>
     returns_with (if c then a else b) P"
  by simp

lemma returns_withD: "returns_with m P \<Longrightarrow> m = (Inr b, tr) \<Longrightarrow> P b"
  by (simp add: returns_with_def)

lemma translate_returns_with:
  assumes m: "s2s_model self = Some model" and t: "s2s_tokenizer self = Some tokenizer"
  shows "returns_with
           (s2s_translate lib fl self (PList (tokens0 # rest)) src_lang dst_lang options)
           (\<lambda>result. \<exists>encoded kwargs generated tsl.
              tokenizer_call lib tokenizer src_lang (PList (tokens0 # rest)) = Inr encoded
              \<and> generate lib model encoded kwargs = Inr generated
              \<and> batch_decode lib tokenizer generated = Inr tsl
              \<and> (if is_PStr tokens0
                  then tsl \<noteq> [] \<and> result = PStr (hd tsl)
                  else result = PList (map PStr tsl)))"
  unfolding s2s_translate_def Let_def m t option.case prod.case py_val.case list.case
  apply (rule returns_with_bind, rule returns_with_call)
  apply (rule returns_with_bind, rule returns_with_call)
  apply (rule returns_with_bind, rule returns_with_lift)
  apply (rule returns_with_bind, rule returns_with_call)
  apply (rule returns_with_bind, rule returns_with_lift)
  apply (rule returns_with_bind)
  apply (rule returns_with_if)
  subgoal for u encoded ntok moved mnt
    apply (rule returns_with_bind, rule returns_with_call, rule returns_with_ret)
    apply (rule returns_with_bind, rule returns_with_call)
    apply (rule returns_with_bind, rule returns_with_call)
    apply (rule returns_with_bind)
     apply (rule returns_with_if)
      apply (auto intro!: returns_with_raise returns_with_ret returns_with_bind
        returns_with_call split: list.splits)
     apply (metis list.sel(1) list.distinct(1))+
    done
  subgoal for u encoded ntok moved mnt
    apply (rule returns_with_ret)
    apply (rule returns_with_bind, rule returns_with_call)
    apply (rule returns_with_bind, rule returns_with_call)
    apply (rule returns_with_bind)
     apply (rule returns_with_if)
      apply (auto intro!: returns_with_raise returns_with_ret returns_with_bind
        returns_with_call split: list.splits)
     apply (metis list.sel(1) list.distinct(1))+
    done
  done

text \<open>
  C10. When \<open>_translate\<close> returns for a non-empty token list, the tokenizer has
  encoded the tokens, the model has generated from the encoding and the tokenizer has
  decoded the result into the list \<open>tsl\<close>; the value returned is the string \<open>tsl[0]\<close> when
  the first token is a string, and the whole list \<open>tsl\<close> otherwise.
\<close>

theorem translate_result_shape:
  assumes "s2s_translate lib fl self (PList (tokens0 # rest)) src_lang dst_lang options =
             (Inr result, tr)"
  shows "\<exists>tokenizer model encoded kwargs generated tsl.
           s2s_tokenizer self = Some tokenizer \<and> s2s_model self = Some model
           \<and> tokenizer_call lib tokenizer src_lang (PList (tokens0 # rest)) = Inr encoded
           \<and> generate lib model encoded kwargs = Inr generated
           \<and> batch_decode lib tokenizer generated = Inr tsl
           \<and> (if is_PStr tokens0
               then tsl \<noteq> [] \<and> result = PStr (hd tsl)
               else result = PList (map PStr tsl))"
proof -
  from assms obtain model tokenizer
    where m: "s2s_model self = Some model" and t: "s2s_tokenizer self = Some tokenizer"
    by (auto simp: s2s_translate_def raise_def split: option.splits)
  from returns_withD [OF translate_returns_with [OF m t] assms] m t
  show ?thesis by blast
qed

theorem translate_result_shape_witness:
  "s2s_translate (mock_lib []) exact_float_ops loaded_s2s
       (PList [PStr ''hello'', PStr ''world'']) ''ja'' ''en'' None =
     (Inr (PStr ''hello world''),
      [EvSetSrcLang MockTokenizer ''ja'',
       EvTokenizerCall MockTokenizer ''ja'' (PList [PStr ''hello'', PStr ''world'']),
       EvTo (Encoded (PList [PStr ''hello'', PStr ''world''])) ''cpu'',
       EvGenerate MockModel (Encoded (PList [PStr ''hello'', PStr ''world'']))
         \<lparr>max_new_tokens = 20, forced_bos_token_id = None\<rparr>,
       EvBatchDecode MockTokenizer (Encoded (PList [PStr ''hello'', PStr ''world'']))])
   \<and> is_PStr (PStr ''hello'')
   \<and> batch_decode (mock_lib []) MockTokenizer (Encoded (PList [PStr ''hello'', PStr ''world'']))
       = Inr [''hello world'']
   \<and> fst (s2s_translate (mock_lib []) exact_float_ops loaded_s2s
          (PList [PList [PStr ''a'', PStr ''b''], PList [PStr ''c'']]) ''ja'' ''en'' None) =
       Inr (PList [PStr ''a b'', PStr ''c''])
   \<and> \<not> is_PStr (PList [PStr ''a'', PStr ''b''])
   \<and> batch_decode (mock_lib []) MockTokenizer
         (Encoded (PList [PList [PStr ''a'', PStr ''b''], PList [PStr ''c'']]))
       = Inr [''a b'', ''c'']"
proof -
  have h: "s2s_translate (mock_lib []) exact_float_ops loaded_s2s
       (PList [PStr ''hello'', PStr ''world'']) ''ja'' ''en'' None =
     (Inr (PStr ''hello world''),
      [EvSetSrcLang MockTokenizer ''ja'',
       EvTokenizerCall MockTokenizer ''ja'' (PList [PStr ''hello'', PStr ''world'']),
       EvTo (Encoded (PList [PStr ''hello'', PStr ''world''])) ''cpu'',
       EvGenerate MockModel (Encoded (PList [PStr ''hello'', PStr ''world'']))
         \<lparr>max_new_tokens = 20, forced_bos_token_id = None\<rparr>,
       EvBatchDecode MockTokenizer (Encoded (PList [PStr ''hello'', PStr ''world'']))])"
    by (simp add: run_defs get_mnt_def opt_min_max_new_tokens_def opt_max_max_new_tokens_def
        opt_max_new_tokens_ratio_def dict_get_def exact_float_ops_def py_min_def py_max_def
        trunc_def)
  have k: "s2s_translate (mock_lib []) exact_float_ops loaded_s2s
       (PList [PList [PStr ''a'', PStr ''b''], PList [PStr ''c'']]) ''ja'' ''en'' None =
     (Inr (PList [PStr ''a b'', PStr ''c'']),
      [EvSetSrcLang MockTokenizer ''ja'',
       EvTokenizerCall MockTokenizer ''ja''
         (PList [PList [PStr ''a'', PStr ''b''], PList [PStr ''c'']]),
       EvTo (Encoded (PList [PList [PStr ''a'', PStr ''b''], PList [PStr ''c'']])) ''cpu'',
       EvGenerate MockModel (Encoded (PList [PList [PStr ''a'', PStr ''b''], PList [PStr ''c'']]))
         \<lparr>max_new_tokens = 20, forced_bos_token_id = None\<rparr>,
       EvBatchDecode MockTokenizer
         (Encoded (PList [PList [PStr ''a'', PStr ''b''], PList [PStr ''c'']]))])"
    by (simp add: run_defs get_mnt_def opt_min_max_new_tokens_def opt_max_max_new_tokens_def
        opt_max_new_tokens_ratio_def dict_get_def exact_float_ops_def py_min_def py_max_def
        trunc_def)
  from translate_result_shape [OF h] translate_result_shape [OF k] h k show ?thesis
    by (simp add: mock_lib_def mock_batch_decode_def)
qed

end
